theory Spec2Isabelle
  imports Main "HOL-Library.Sublist"
begin

section \<open>The usability-review client of CSharperMcp\<close>

text \<open>
  The program under study is \<^verbatim>\<open>tools/generate-usability-review.py\<close>: a class
  \<^verbatim>\<open>McpClient\<close> (\<^verbatim>\<open>__init__\<close>, \<^verbatim>\<open>start\<close>, \<^verbatim>\<open>send_request\<close>, \<^verbatim>\<open>close\<close>) and the
  driver \<^verbatim>\<open>generate_review\<close>. The client speaks line-delimited JSON with a child
  process over its standard streams.

  Conventions of the embedding.
  \<^item> A Python \<^verbatim>\<open>str\<close> is represented by its UTF-8 bytes, one \<^typ>\<open>char\<close> per byte, so
    \<^verbatim>\<open>encode()\<close> is the identity and \<^verbatim>\<open>decode()\<close> succeeds exactly on well-formed
    UTF-8. \<^verbatim>\<open>bytes\<close> are strings of the same type.
  \<^item> Python's unbounded \<^verbatim>\<open>int\<close> is \<^typ>\<open>int\<close>.
  \<^item> A \<^verbatim>\<open>dict\<close> is an association list in insertion order, keys being strings.
  \<^item> An exception is a value of type \<open>error\<close>; a call either returns, raises, or
    never comes back (\<open>Blocks\<close>: an \<^verbatim>\<open>await\<close> on a child that stays silent).
  \<^item> \<^verbatim>\<open>await\<close> itself has no effect of its own: the script runs one coroutine,
    so each awaited call is executed in place.
  \<^item> The standard library (\<^verbatim>\<open>json\<close>, \<^verbatim>\<open>asyncio\<close>, \<^verbatim>\<open>repr\<close>, \<^verbatim>\<open>print\<close>) is modelled
    from CPython 3.11. What it does that depends on the machine and the interpreter's
    settings is a parameter of the model, the \<open>platform\<close>: what launching a program
    does, the limit on the digits of an integer converted to or from text, how deeply
    nested a value each conversion can walk before \<^verbatim>\<open>RecursionError\<close>, the text of a
    floating-point number, which characters are printable, and what standard output
    accepts.
  \<^item> Not modelled: the lines written to \<^verbatim>\<open>sys.stderr\<close> (the decoding that formatting
    the \<^verbatim>\<open>Received:\<close> line performs is, since it can raise), the warm-up
    \<^verbatim>\<open>asyncio.sleep(2)\<close>, exhaustion of memory, and interruption from outside.
\<close>

subsection \<open>Values and exceptions\<close>

text \<open>A floating-point number is carried as the literal it was read from.\<close>

datatype json =
    JNull
  | JBool bool
  | JInt int
  | JFloat string
  | JStr string
  | JArr "json list"
  | JObj "(string \<times> json) list"

datatype error =
    FileNotFoundError
  | PermissionError
  | NotADirectoryError
  | OSError
  | ProcessLookupError
  | ConnectionResetError
  | BrokenPipeError
  | AttributeError
  | UnicodeDecodeError
  | UnicodeEncodeError
  | JSONDecodeError
  | ValueError
  | RecursionError
  | KeyError string
  | TypeError
  | OtherError "string list"

text \<open>The class of an exception followed by its base classes, as Python resolves them.
  \<open>OtherError\<close> stands for an exception of any class not listed, given by these names.\<close>

fun exception_mro :: "error \<Rightarrow> string list" where
  "exception_mro FileNotFoundError =
     [''FileNotFoundError'', ''OSError'', ''Exception'', ''BaseException'', ''object'']"
| "exception_mro PermissionError =
     [''PermissionError'', ''OSError'', ''Exception'', ''BaseException'', ''object'']"
| "exception_mro NotADirectoryError =
     [''NotADirectoryError'', ''OSError'', ''Exception'', ''BaseException'', ''object'']"
| "exception_mro OSError =
     [''OSError'', ''Exception'', ''BaseException'', ''object'']"
| "exception_mro ProcessLookupError =
     [''ProcessLookupError'', ''OSError'', ''Exception'', ''BaseException'', ''object'']"
| "exception_mro ConnectionResetError =
     [''ConnectionResetError'', ''ConnectionError'', ''OSError'', ''Exception'',
      ''BaseException'', ''object'']"
| "exception_mro BrokenPipeError =
     [''BrokenPipeError'', ''ConnectionError'', ''OSError'', ''Exception'',
      ''BaseException'', ''object'']"
| "exception_mro AttributeError =
     [''AttributeError'', ''Exception'', ''BaseException'', ''object'']"
| "exception_mro UnicodeDecodeError =
     [''UnicodeDecodeError'', ''UnicodeError'', ''ValueError'', ''Exception'',
      ''BaseException'', ''object'']"
| "exception_mro UnicodeEncodeError =
     [''UnicodeEncodeError'', ''UnicodeError'', ''ValueError'', ''Exception'',
      ''BaseException'', ''object'']"
| "exception_mro JSONDecodeError =
     [''JSONDecodeError'', ''ValueError'', ''Exception'', ''BaseException'', ''object'']"
| "exception_mro ValueError =
     [''ValueError'', ''Exception'', ''BaseException'', ''object'']"
| "exception_mro RecursionError =
     [''RecursionError'', ''RuntimeError'', ''Exception'', ''BaseException'', ''object'']"
| "exception_mro (KeyError k) =
     [''KeyError'', ''LookupError'', ''Exception'', ''BaseException'', ''object'']"
| "exception_mro TypeError =
     [''TypeError'', ''Exception'', ''BaseException'', ''object'']"
| "exception_mro (OtherError names) = names"

datatype 'a outcome = Returns 'a | Raises error | Blocks

subsection \<open>The child process\<close>

text \<open>
  The exchange is strictly request-then-read, so what the child shows the client is a
  function of the request lines it has been sent so far, the last one included:
  \<^item> \<open>Reply line\<close>: its output holds \<open>line\<close> next, up to and including the first
    newline, or up to the end of the stream (empty when the stream has ended);
  \<^item> \<open>Silent\<close>: it writes nothing and keeps its output open;
  \<^item> \<open>Breaks e\<close>: the exchange fails with \<open>e\<close> before a line is read: the child's input
    pipe is closed and \<^verbatim>\<open>drain()\<close> raises \<^verbatim>\<open>ConnectionResetError\<close> or \<^verbatim>\<open>BrokenPipeError\<close>,
    or reading the child's output fails in the operating system.

  When the client closes, the child has either exited by itself and been collected by
  the event loop, or exits on the termination signal, or ignores the signal.
\<close>

datatype reaction = Reply string | Silent | Breaks error

datatype ending = Collected | Exits | Ignores

record behaviour =
  respond :: "string list \<Rightarrow> reaction"
  at_close :: "string list \<Rightarrow> ending"

subsection \<open>The platform\<close>

text \<open>
  \<^item> \<open>launch prog args\<close>: what \<^verbatim>\<open>asyncio.create_subprocess_exec(prog, *args, ...)\<close>
    does on this system: it raises, or a child with some behaviour runs.
  \<^item> \<open>int_max_str_digits\<close>: \<^verbatim>\<open>sys.get_int_max_str_digits()\<close>, 4300 unless changed, 0 for
    no limit.
  \<^item> \<open>loads_depth\<close>, \<open>dumps_depth\<close>, \<open>pretty_depth\<close>, \<open>repr_depth\<close>: how many containers
    inside one another \<^verbatim>\<open>json.loads\<close>, \<^verbatim>\<open>json.dumps\<close>, \<^verbatim>\<open>json.dumps(indent=2)\<close> and
    \<^verbatim>\<open>repr\<close> can enter where the script calls them, before the interpreter raises
    \<^verbatim>\<open>RecursionError\<close>.
  \<^item> \<open>float_json\<close>, \<open>float_repr\<close>: the text \<^verbatim>\<open>json.dumps\<close> and \<^verbatim>\<open>repr\<close> give for the
    double nearest to a literal.
  \<^item> \<open>isprintable\<close>: \<^verbatim>\<open>str.isprintable\<close> on one code point.
  \<^item> \<open>stdout_failure written text\<close>: the exception, if any, that writing \<open>text\<close> to
    \<^verbatim>\<open>sys.stdout\<close> raises after \<open>written\<close> has been written: \<^verbatim>\<open>UnicodeEncodeError\<close> for a
    character its encoding lacks, an \<^verbatim>\<open>OSError\<close> for a closed pipe or a full disk.
\<close>

record platform =
  launch :: "string \<Rightarrow> string list \<Rightarrow> error + behaviour"
  int_max_str_digits :: int
  loads_depth :: int
  dumps_depth :: int
  pretty_depth :: int
  repr_depth :: int
  float_json :: "string \<Rightarrow> string"
  float_repr :: "string \<Rightarrow> string"
  isprintable :: "nat \<Rightarrow> bool"
  stdout_failure :: "string list \<Rightarrow> string \<Rightarrow> error option"

subsection \<open>Text: digits, UTF-8\<close>

definition newline :: char where
  "newline = CHR 0x0A"

definition backslash :: char where
  "backslash = CHR 0x5C"

definition dquote :: char where
  "dquote = CHR 0x22"

definition squote :: char where
  "squote = CHR 0x27"

definition byte :: "char \<Rightarrow> nat" where
  "byte c = of_char c"

definition chr :: "nat \<Rightarrow> char" where
  "chr n = char_of n"

text \<open>The decimal digits of an integer that is not negative.\<close>

function decimal :: "int \<Rightarrow> string" where
  "decimal i =
     (if i < 10 then [chr (48 + nat i)] else decimal (i div 10) @ [chr (48 + nat (i mod 10))])"
  by pat_completeness auto

termination
  by (relation "measure nat") auto

declare decimal.simps [simp del]

definition show_nat :: "nat \<Rightarrow> string" where
  "show_nat n = decimal (int n)"

definition show_int :: "int \<Rightarrow> string" where
  "show_int i = (if i < 0 then CHR ''-'' # decimal (- i) else decimal i)"

definition int_digits :: "int \<Rightarrow> nat" where
  "int_digits i = length (decimal \<bar>i\<bar>)"

text \<open>Converting an integer to text, or text to an integer, raises \<^verbatim>\<open>ValueError\<close> when
  the integer has more digits than the limit, if there is a limit.\<close>

definition over_digit_limit :: "platform \<Rightarrow> nat \<Rightarrow> bool" where
  "over_digit_limit pf digits =
     (0 < int_max_str_digits pf \<and> int_max_str_digits pf < int digits)"

definition hex_digit :: "nat \<Rightarrow> char" where
  "hex_digit n = (if n < 10 then chr (48 + n) else chr (87 + n))"

definition hex2 :: "nat \<Rightarrow> string" where
  "hex2 n = [hex_digit (n div 16 mod 16), hex_digit (n mod 16)]"

definition hex4 :: "nat \<Rightarrow> string" where
  "hex4 n = hex2 (n div 256) @ hex2 n"

definition hex8 :: "nat \<Rightarrow> string" where
  "hex8 n = hex4 (n div 65536) @ hex4 n"

definition is_cont :: "char \<Rightarrow> bool" where
  "is_cont c = (0x80 \<le> byte c \<and> byte c < 0xC0)"

definition in_range :: "nat \<Rightarrow> nat \<Rightarrow> char \<Rightarrow> bool" where
  "in_range lo hi c = (lo \<le> byte c \<and> byte c \<le> hi)"

text \<open>Well-formed UTF-8, as the strict decoder of \<^verbatim>\<open>bytes.decode()\<close> accepts it.\<close>

fun utf8_valid :: "string \<Rightarrow> bool" where
  "utf8_valid [] = True"
| "utf8_valid (c # cs) =
     (let b = byte c in
      if b < 0x80 then utf8_valid cs
      else if 0xC2 \<le> b \<and> b < 0xE0 then
        (case cs of c1 # r \<Rightarrow> is_cont c1 \<and> utf8_valid r | _ \<Rightarrow> False)
      else if 0xE0 \<le> b \<and> b < 0xF0 then
        (case cs of
           c1 # c2 # r \<Rightarrow>
             (if b = 0xE0 then in_range 0xA0 0xBF c1
              else if b = 0xED then in_range 0x80 0x9F c1
              else is_cont c1) \<and> is_cont c2 \<and> utf8_valid r
         | _ \<Rightarrow> False)
      else if 0xF0 \<le> b \<and> b < 0xF5 then
        (case cs of
           c1 # c2 # c3 # r \<Rightarrow>
             (if b = 0xF0 then in_range 0x90 0xBF c1
              else if b = 0xF4 then in_range 0x80 0x8F c1
              else is_cont c1) \<and> is_cont c2 \<and> is_cont c3 \<and> utf8_valid r
         | _ \<Rightarrow> False)
      else False)"

text \<open>\<^verbatim>\<open>bytes.decode()\<close>: the text of a byte string, or \<^verbatim>\<open>UnicodeDecodeError\<close>.\<close>

definition decode :: "string \<Rightarrow> error + string" where
  "decode bs = (if utf8_valid bs then Inr bs else Inl UnicodeDecodeError)"

text \<open>
  The code points of a text. Escapes of lone surrogates, which \<^verbatim>\<open>json.loads\<close> lets
  through, are kept as three bytes of the same layout, so the function reads those too.
\<close>

fun codepoints :: "string \<Rightarrow> nat list" where
  "codepoints [] = []"
| "codepoints (c # cs) =
     (let b = byte c in
      if b < 0xC0 then b # codepoints cs
      else if b < 0xE0 then
        (case cs of
           c1 # r \<Rightarrow> ((b - 0xC0) * 64 + byte c1 mod 64) # codepoints r
         | _ \<Rightarrow> b # codepoints cs)
      else if b < 0xF0 then
        (case cs of
           c1 # c2 # r \<Rightarrow>
             ((b - 0xE0) * 4096 + (byte c1 mod 64) * 64 + byte c2 mod 64) # codepoints r
         | _ \<Rightarrow> b # codepoints cs)
      else
        (case cs of
           c1 # c2 # c3 # r \<Rightarrow>
             ((b - 0xF0) * 262144 + (byte c1 mod 64) * 4096 + (byte c2 mod 64) * 64
                + byte c3 mod 64) # codepoints r
         | _ \<Rightarrow> b # codepoints cs))"

definition utf8_encode :: "nat \<Rightarrow> string" where
  "utf8_encode n =
     (if n < 0x80 then [chr n]
      else if n < 0x800 then [chr (0xC0 + n div 64), chr (0x80 + n mod 64)]
      else if n < 0x10000 then
        [chr (0xE0 + n div 4096), chr (0x80 + n div 64 mod 64), chr (0x80 + n mod 64)]
      else
        [chr (0xF0 + n div 262144), chr (0x80 + n div 4096 mod 64),
         chr (0x80 + n div 64 mod 64), chr (0x80 + n mod 64)])"

subsection \<open>\<^verbatim>\<open>json.dumps\<close>\<close>

text \<open>
  \<^verbatim>\<open>ensure_ascii\<close> is on by default: every character outside \<^verbatim>\<open>' '..'~'\<close> and the two
  characters \<^verbatim>\<open>"\<close> and \<^verbatim>\<open>\\<close> are escaped.
\<close>

definition escape_codepoint :: "nat \<Rightarrow> string" where
  "escape_codepoint n =
     (if n = 0x5C then [backslash, backslash]
      else if n = 0x22 then [backslash, dquote]
      else if n = 0x08 then [backslash, CHR ''b'']
      else if n = 0x0C then [backslash, CHR ''f'']
      else if n = 0x0A then [backslash, CHR ''n'']
      else if n = 0x0D then [backslash, CHR ''r'']
      else if n = 0x09 then [backslash, CHR ''t'']
      else if 0x20 \<le> n \<and> n \<le> 0x7E then [chr n]
      else if n < 0x10000 then backslash # CHR ''u'' # hex4 n
      else
        backslash # CHR ''u'' # hex4 (0xD800 + (n - 0x10000) div 1024 mod 1024)
          @ backslash # CHR ''u'' # hex4 (0xDC00 + (n - 0x10000) mod 1024))"

definition encode_basestring_ascii :: "string \<Rightarrow> string" where
  "encode_basestring_ascii s = dquote # concat (map escape_codepoint (codepoints s)) @ [dquote]"

definition newline_indent :: "nat option \<Rightarrow> nat \<Rightarrow> string" where
  "newline_indent indent level =
     (case indent of None \<Rightarrow> [] | Some n \<Rightarrow> newline # replicate (n * level) CHR '' '')"

definition item_separator :: "nat option \<Rightarrow> nat \<Rightarrow> string" where
  "item_separator indent level =
     (case indent of None \<Rightarrow> '', '' | Some n \<Rightarrow> '','' @ newline_indent indent level)"

fun iterencode :: "(string \<Rightarrow> string) \<Rightarrow> nat option \<Rightarrow> nat \<Rightarrow> json \<Rightarrow> string"
  and iterencode_list :: "(string \<Rightarrow> string) \<Rightarrow> nat option \<Rightarrow> nat \<Rightarrow> json list \<Rightarrow> string"
  and iterencode_dict ::
    "(string \<Rightarrow> string) \<Rightarrow> nat option \<Rightarrow> nat \<Rightarrow> (string \<times> json) list \<Rightarrow> string"
where
  "iterencode fl indent level JNull = ''null''"
| "iterencode fl indent level (JBool b) = (if b then ''true'' else ''false'')"
| "iterencode fl indent level (JInt i) = show_int i"
| "iterencode fl indent level (JFloat lit) = fl lit"
| "iterencode fl indent level (JStr s) = encode_basestring_ascii s"
| "iterencode fl indent level (JArr xs) =
     (if xs = [] then ''[]''
      else ''['' @ newline_indent indent (Suc level) @ iterencode_list fl indent (Suc level) xs
             @ newline_indent indent level @ '']'')"
| "iterencode fl indent level (JObj ms) =
     (if ms = [] then ''{}''
      else ''{'' @ newline_indent indent (Suc level) @ iterencode_dict fl indent (Suc level) ms
             @ newline_indent indent level @ ''}'')"
| "iterencode_list fl indent level [] = []"
| "iterencode_list fl indent level [x] = iterencode fl indent level x"
| "iterencode_list fl indent level (x # y # xs) =
     iterencode fl indent level x @ item_separator indent level
       @ iterencode_list fl indent level (y # xs)"
| "iterencode_dict fl indent level [] = []"
| "iterencode_dict fl indent level [(k, v)] =
     encode_basestring_ascii k @ '': '' @ iterencode fl indent level v"
| "iterencode_dict fl indent level ((k, v) # m # ms) =
     encode_basestring_ascii k @ '': '' @ iterencode fl indent level v
       @ item_separator indent level @ iterencode_dict fl indent level (m # ms)"

text \<open>
  The first exception met when a value is walked to be turned into text, by
  \<^verbatim>\<open>json.dumps\<close> or by \<^verbatim>\<open>repr\<close>: entering a container when no further one can be entered
  raises \<^verbatim>\<open>RecursionError\<close>, an integer with too many digits raises \<^verbatim>\<open>ValueError\<close>.
  \<open>room\<close> is the number of containers inside one another that can still be entered.
\<close>

fun conversion_failure :: "platform \<Rightarrow> int \<Rightarrow> json \<Rightarrow> error option"
  and conversion_failure_list :: "platform \<Rightarrow> int \<Rightarrow> json list \<Rightarrow> error option"
  and conversion_failure_dict :: "platform \<Rightarrow> int \<Rightarrow> (string \<times> json) list \<Rightarrow> error option"
where
  "conversion_failure pf room (JInt i) =
     (if over_digit_limit pf (int_digits i) then Some ValueError else None)"
| "conversion_failure pf room (JArr xs) =
     (if room \<le> 0 then Some RecursionError else conversion_failure_list pf (room - 1) xs)"
| "conversion_failure pf room (JObj ms) =
     (if room \<le> 0 then Some RecursionError else conversion_failure_dict pf (room - 1) ms)"
| "conversion_failure pf room JNull = None"
| "conversion_failure pf room (JBool b) = None"
| "conversion_failure pf room (JFloat lit) = None"
| "conversion_failure pf room (JStr s) = None"
| "conversion_failure_list pf room [] = None"
| "conversion_failure_list pf room (x # xs) =
     (case conversion_failure pf room x of
        Some e \<Rightarrow> Some e
      | None \<Rightarrow> conversion_failure_list pf room xs)"
| "conversion_failure_dict pf room [] = None"
| "conversion_failure_dict pf room ((k, v) # ms) =
     (case conversion_failure pf room v of
        Some e \<Rightarrow> Some e
      | None \<Rightarrow> conversion_failure_dict pf room ms)"

definition json_dumps :: "platform \<Rightarrow> nat option \<Rightarrow> json \<Rightarrow> error + string" where
  "json_dumps pf indent v =
     (case conversion_failure pf
             (case indent of None \<Rightarrow> dumps_depth pf | Some n \<Rightarrow> pretty_depth pf) v of
        Some e \<Rightarrow> Inl e
      | None \<Rightarrow> Inr (iterencode (float_json pf) indent 0 v))"

subsection \<open>\<^verbatim>\<open>json.loads\<close>\<close>

text \<open>
  The decoder reads its text once, from left to right, and raises at the first thing
  it cannot accept. Here the text is first cut into tokens, which never fails: what
  cannot start a token ends the list with \<open>Bad\<close>. The tokens are then consumed in order,
  so an exception is raised for the leftmost cause, as in the decoder:
  \<^item> \<^verbatim>\<open>JSONDecodeError\<close> for a token the grammar does not allow where it stands, and
    for text left after the value;
  \<^item> \<^verbatim>\<open>ValueError\<close> for an integer, where a value is expected, with more digits than
    the limit;
  \<^item> \<^verbatim>\<open>RecursionError\<close> for a \<^verbatim>\<open>[\<close> or \<^verbatim>\<open>{\<close>, where a value is expected, inside as many
    open containers as the decoder can enter.

  As in the decoder with its default settings, the literals \<^verbatim>\<open>NaN\<close>, \<^verbatim>\<open>Infinity\<close> and
  \<^verbatim>\<open>-Infinity\<close> are read; a key given twice keeps its first place and its last value.
\<close>

datatype token =
    LBrace | RBrace | LBracket | RBracket | Comma | Colon
  | Scalar json
  | Integer int nat
  | Bad

datatype code_unit = Ch char | U nat

definition hexval :: "char \<Rightarrow> nat option" where
  "hexval c =
     (let b = byte c in
      if 48 \<le> b \<and> b \<le> 57 then Some (b - 48)
      else if 97 \<le> b \<and> b \<le> 102 then Some (b - 87)
      else if 65 \<le> b \<and> b \<le> 70 then Some (b - 55)
      else None)"

definition unescape :: "char \<Rightarrow> char option" where
  "unescape e =
     (if e = dquote then Some dquote
      else if e = backslash then Some backslash
      else if e = CHR ''/'' then Some CHR ''/''
      else if e = CHR ''b'' then Some (CHR 0x08)
      else if e = CHR ''f'' then Some (CHR 0x0C)
      else if e = CHR ''n'' then Some (CHR 0x0A)
      else if e = CHR ''r'' then Some (CHR 0x0D)
      else if e = CHR ''t'' then Some (CHR 0x09)
      else None)"

definition cons_unit :: "code_unit \<Rightarrow> (code_unit list \<times> string) option \<Rightarrow> (code_unit list \<times> string) option" where
  "cons_unit u r = (case r of None \<Rightarrow> None | Some (us, rest) \<Rightarrow> Some (u # us, rest))"

text \<open>The body of a string, read after its opening quote, and the text that follows it.\<close>

fun scanstring :: "string \<Rightarrow> (code_unit list \<times> string) option" where
  "scanstring [] = None"
| "scanstring (c # cs) =
     (if c = dquote then Some ([], cs)
      else if c = backslash then
        (case cs of
           [] \<Rightarrow> None
         | e # r \<Rightarrow>
             if e = CHR ''u'' then
               (case r of
                  h3 # h2 # h1 # h0 # r1 \<Rightarrow>
                    (case (hexval h3, hexval h2, hexval h1, hexval h0) of
                       (Some x3, Some x2, Some x1, Some x0) \<Rightarrow>
                         cons_unit (U (x3 * 4096 + x2 * 256 + x1 * 16 + x0)) (scanstring r1)
                     | _ \<Rightarrow> None)
                | _ \<Rightarrow> None)
             else
               (case unescape e of
                  None \<Rightarrow> None
                | Some ch \<Rightarrow> cons_unit (Ch ch) (scanstring r)))
      else if byte c < 0x20 then None
      else cons_unit (Ch c) (scanstring cs))"

text \<open>A high surrogate escape directly followed by a low one is one code point.\<close>

fun join_units :: "code_unit list \<Rightarrow> string" where
  "join_units [] = []"
| "join_units (Ch c # us) = c # join_units us"
| "join_units (U h # U l # us) =
     (if 0xD800 \<le> h \<and> h \<le> 0xDBFF \<and> 0xDC00 \<le> l \<and> l \<le> 0xDFFF
      then utf8_encode (0x10000 + (h - 0xD800) * 1024 + (l - 0xDC00)) @ join_units us
      else utf8_encode h @ join_units (U l # us))"
| "join_units (U n # us) = utf8_encode n @ join_units us"

definition is_digit :: "char \<Rightarrow> bool" where
  "is_digit c = (48 \<le> byte c \<and> byte c \<le> 57)"

definition digits_value :: "string \<Rightarrow> int" where
  "digits_value ds = foldl (\<lambda>a c. 10 * a + int (byte c - 48)) 0 ds"

text \<open>
  A number by the pattern \<^verbatim>\<open>(-?(?:0|[1-9]\d*))(\.\d+)?([eE][-+]?\d+)?\<close>: an integer,
  given with the number of its digits, when it has neither fraction nor exponent.
\<close>

definition scan_number :: "string \<Rightarrow> (token \<times> string) option" where
  "scan_number s =
     (let sign = (case s of c # r \<Rightarrow> if c = CHR ''-'' then ''-'' else [] | [] \<Rightarrow> []);
          s1 = drop (length sign) s;
          ip = (case s1 of c # r \<Rightarrow> if c = CHR ''0'' then ''0'' else takeWhile is_digit s1
                | [] \<Rightarrow> []);
          s2 = drop (length ip) s1;
          fr = (case s2 of
                  c # r \<Rightarrow>
                    if c = CHR ''.'' \<and> takeWhile is_digit r \<noteq> [] then c # takeWhile is_digit r
                    else []
                | [] \<Rightarrow> []);
          s3 = drop (length fr) s2;
          ex = (case s3 of
                  c # r \<Rightarrow>
                    if c = CHR ''e'' \<or> c = CHR ''E'' then
                      (let sg = (case r of x # r' \<Rightarrow>
                                   if x = CHR ''-'' \<or> x = CHR ''+'' then [x] else []
                                 | [] \<Rightarrow> []);
                           ds = takeWhile is_digit (drop (length sg) r)
                       in if ds = [] then [] else c # sg @ ds)
                    else []
                | [] \<Rightarrow> []);
          s4 = drop (length ex) s3
      in if ip = [] then None
         else if fr = [] \<and> ex = [] then
           Some (Integer (if sign = [] then digits_value ip else - digits_value ip) (length ip), s4)
         else Some (Scalar (JFloat (sign @ ip @ fr @ ex)), s4))"

definition is_space :: "char \<Rightarrow> bool" where
  "is_space c = (c = CHR '' '' \<or> c = CHR 0x09 \<or> c = CHR 0x0A \<or> c = CHR 0x0D)"

function tokenize :: "string \<Rightarrow> token list" where
  "tokenize [] = []"
| "tokenize (c # cs) =
     (if is_space c then tokenize cs
      else if c = CHR ''{'' then LBrace # tokenize cs
      else if c = CHR ''}'' then RBrace # tokenize cs
      else if c = CHR ''['' then LBracket # tokenize cs
      else if c = CHR '']'' then RBracket # tokenize cs
      else if c = CHR '','' then Comma # tokenize cs
      else if c = CHR '':'' then Colon # tokenize cs
      else if c = dquote then
        (case scanstring cs of
           None \<Rightarrow> [Bad]
         | Some (us, rest) \<Rightarrow> Scalar (JStr (join_units us)) # tokenize rest)
      else if take 4 (c # cs) = ''null'' then Scalar JNull # tokenize (drop 3 cs)
      else if take 4 (c # cs) = ''true'' then Scalar (JBool True) # tokenize (drop 3 cs)
      else if take 5 (c # cs) = ''false'' then Scalar (JBool False) # tokenize (drop 4 cs)
      else if take 3 (c # cs) = ''NaN'' then Scalar (JFloat ''NaN'') # tokenize (drop 2 cs)
      else if take 8 (c # cs) = ''Infinity'' then
        Scalar (JFloat ''Infinity'') # tokenize (drop 7 cs)
      else
        (case scan_number (c # cs) of
           Some (t, rest) \<Rightarrow> t # tokenize rest
         | None \<Rightarrow>
             if take 9 (c # cs) = ''-Infinity'' then
               Scalar (JFloat ''-Infinity'') # tokenize (drop 8 cs)
             else [Bad]))"
  by pat_completeness auto

termination
proof -
  have str: "length rest < Suc (length s)" if "scanstring s = Some (us, rest)" for s us rest
    using that
  proof (induction s arbitrary: us rule: scanstring.induct)
    case 1
    then show ?case by simp
  next
    case (2 c cs)
    then show ?case
      by (fastforce simp: cons_unit_def
            split: if_splits list.splits option.splits prod.splits)
  qed
  have num: "length rest < length s" if a: "scan_number s = Some (t, rest)" for s t rest
  proof -
    define sign where "sign = (case s of c # r \<Rightarrow> if c = CHR ''-'' then ''-'' else [] | [] \<Rightarrow> [])"
    define s1 where "s1 = drop (length sign) s"
    define ip where "ip = (case s1 of c # r \<Rightarrow> if c = CHR ''0'' then ''0'' else takeWhile is_digit s1
                  | [] \<Rightarrow> [])"
    have ip: "ip \<noteq> []"
      using a unfolding scan_number_def Let_def sign_def s1_def ip_def
      by (auto split: if_splits)
    have le: "length ip \<le> length s1"
      unfolding ip_def by (auto split: list.splits simp: length_takeWhile_le)
    have "length s1 \<le> length s"
      unfolding s1_def by simp
    moreover have "length rest \<le> length s1 - length ip"
      using a unfolding scan_number_def Let_def sign_def s1_def ip_def
      by (auto split: if_splits)
    moreover have "0 < length ip" using ip by simp
    ultimately show ?thesis using le by linarith
  qed
  show ?thesis
  proof (relation "measure length")
    show "wf (measure length)" by simp
  qed (auto dest: str num)
qed

declare tokenize.simps(2) [simp del]

text \<open>\<^verbatim>\<open>dict[k] = v\<close>: a known key keeps its place, a new key goes to the end.\<close>

fun dict_set :: "(string \<times> json) list \<Rightarrow> string \<Rightarrow> json \<Rightarrow> (string \<times> json) list" where
  "dict_set [] k v = [(k, v)]"
| "dict_set ((k', v') # ms) k v = (if k' = k then (k, v) # ms else (k', v') # dict_set ms k v)"

text \<open>The containers that are open, innermost first, and what the grammar expects next.\<close>

datatype frame = InArr "json list" | InObj "(string \<times> json) list" "string option"

datatype phase = Value | FirstItem | FirstKey | Key | AfterKey | AfterValue | Done json

type_synonym parser = "frame list \<times> phase"

fun push_value :: "json \<Rightarrow> frame list \<Rightarrow> error + parser" where
  "push_value v [] = Inr ([], Done v)"
| "push_value v (InArr xs # st) = Inr (InArr (xs @ [v]) # st, AfterValue)"
| "push_value v (InObj ms (Some k) # st) = Inr (InObj (dict_set ms k v) None # st, AfterValue)"
| "push_value v (InObj ms None # st) = Inl JSONDecodeError"

fun value_token :: "platform \<Rightarrow> token \<Rightarrow> frame list \<Rightarrow> error + parser" where
  "value_token pf (Scalar v) st = push_value v st"
| "value_token pf (Integer i digits) st =
     (if over_digit_limit pf digits then Inl ValueError else push_value (JInt i) st)"
| "value_token pf LBracket st =
     (if loads_depth pf \<le> int (length st) then Inl RecursionError
      else Inr (InArr [] # st, FirstItem))"
| "value_token pf LBrace st =
     (if loads_depth pf \<le> int (length st) then Inl RecursionError
      else Inr (InObj [] None # st, FirstKey))"
| "value_token pf t st = Inl JSONDecodeError"

fun key_token :: "token \<Rightarrow> frame list \<Rightarrow> error + parser" where
  "key_token (Scalar (JStr k)) (InObj ms pending # st) = Inr (InObj ms (Some k) # st, AfterKey)"
| "key_token t st = Inl JSONDecodeError"

fun close_token :: "token \<Rightarrow> frame list \<Rightarrow> error + parser" where
  "close_token RBracket (InArr xs # st) = push_value (JArr xs) st"
| "close_token RBrace (InObj ms None # st) = push_value (JObj ms) st"
| "close_token t st = Inl JSONDecodeError"

fun next_token :: "token \<Rightarrow> frame list \<Rightarrow> error + parser" where
  "next_token Comma (InArr xs # st) = Inr (InArr xs # st, Value)"
| "next_token Comma (InObj ms None # st) = Inr (InObj ms None # st, Key)"
| "next_token t st = close_token t st"

fun parse_step :: "platform \<Rightarrow> token \<Rightarrow> parser \<Rightarrow> error + parser" where
  "parse_step pf t (st, Value) = value_token pf t st"
| "parse_step pf t (st, FirstItem) =
     (case t of RBracket \<Rightarrow> close_token t st | _ \<Rightarrow> value_token pf t st)"
| "parse_step pf t (st, FirstKey) =
     (case t of RBrace \<Rightarrow> close_token t st | _ \<Rightarrow> key_token t st)"
| "parse_step pf t (st, Key) = key_token t st"
| "parse_step pf t (st, AfterKey) =
     (case t of Colon \<Rightarrow> Inr (st, Value) | _ \<Rightarrow> Inl JSONDecodeError)"
| "parse_step pf t (st, AfterValue) = next_token t st"
| "parse_step pf t (st, Done v) = Inl JSONDecodeError"

fun parse_tokens :: "platform \<Rightarrow> token list \<Rightarrow> parser \<Rightarrow> error + json" where
  "parse_tokens pf [] (st, ph) =
     (case (st, ph) of ([], Done v) \<Rightarrow> Inr v | _ \<Rightarrow> Inl JSONDecodeError)"
| "parse_tokens pf (t # ts) s =
     (case parse_step pf t s of Inl e \<Rightarrow> Inl e | Inr s' \<Rightarrow> parse_tokens pf ts s')"

definition json_loads :: "platform \<Rightarrow> string \<Rightarrow> error + json" where
  "json_loads pf s = parse_tokens pf (tokenize s) ([], Value)"

subsection \<open>Built-in operations on values\<close>

text \<open>\<^verbatim>\<open>v[k]\<close> with a string \<open>k\<close>: only a \<^verbatim>\<open>dict\<close> can be subscripted by a string.\<close>

definition getitem :: "json \<Rightarrow> string \<Rightarrow> error + json" where
  "getitem v k =
     (case v of
        JObj ms \<Rightarrow> (case map_of ms k of None \<Rightarrow> Inl (KeyError k) | Some x \<Rightarrow> Inr x)
      | _ \<Rightarrow> Inl TypeError)"

definition py_len :: "json \<Rightarrow> error + nat" where
  "py_len v =
     (case v of
        JArr xs \<Rightarrow> Inr (length xs)
      | JObj ms \<Rightarrow> Inr (length ms)
      | JStr s \<Rightarrow> Inr (length (codepoints s))
      | _ \<Rightarrow> Inl TypeError)"

text \<open>What a \<^verbatim>\<open>for\<close> loop runs over: the items of a list, the keys of a dict, the
  characters of a string.\<close>

definition py_iter :: "json \<Rightarrow> error + json list" where
  "py_iter v =
     (case v of
        JArr xs \<Rightarrow> Inr xs
      | JObj ms \<Rightarrow> Inr (map (\<lambda>m. JStr (fst m)) ms)
      | JStr s \<Rightarrow> Inr (map (\<lambda>n. JStr (utf8_encode n)) (codepoints s))
      | _ \<Rightarrow> Inl TypeError)"

text \<open>\<^verbatim>\<open>repr\<close> of a string: the quote is \<^verbatim>\<open>'\<close> unless the string has a \<^verbatim>\<open>'\<close> and no \<^verbatim>\<open>"\<close>;
  what is not printable is escaped.\<close>

definition repr_codepoint :: "platform \<Rightarrow> char \<Rightarrow> nat \<Rightarrow> string" where
  "repr_codepoint pf q n =
     (if n = byte q \<or> n = 0x5C then [backslash, chr n]
      else if n = 0x09 then [backslash, CHR ''t'']
      else if n = 0x0A then [backslash, CHR ''n'']
      else if n = 0x0D then [backslash, CHR ''r'']
      else if n < 0x20 \<or> n = 0x7F then backslash # CHR ''x'' # hex2 n
      else if n < 0x7F then [chr n]
      else if isprintable pf n then utf8_encode n
      else if n < 0x100 then backslash # CHR ''x'' # hex2 n
      else if n < 0x10000 then backslash # CHR ''u'' # hex4 n
      else backslash # CHR ''U'' # hex8 n)"

definition repr_str :: "platform \<Rightarrow> string \<Rightarrow> string" where
  "repr_str pf s =
     (let q = (if squote \<in> set s \<and> dquote \<notin> set s then dquote else squote)
      in q # concat (map (repr_codepoint pf q) (codepoints s)) @ [q])"

fun repr_text :: "platform \<Rightarrow> json \<Rightarrow> string"
  and repr_list :: "platform \<Rightarrow> json list \<Rightarrow> string"
  and repr_dict :: "platform \<Rightarrow> (string \<times> json) list \<Rightarrow> string"
where
  "repr_text pf JNull = ''None''"
| "repr_text pf (JBool b) = (if b then ''True'' else ''False'')"
| "repr_text pf (JInt i) = show_int i"
| "repr_text pf (JFloat lit) = float_repr pf lit"
| "repr_text pf (JStr s) = repr_str pf s"
| "repr_text pf (JArr xs) = ''['' @ repr_list pf xs @ '']''"
| "repr_text pf (JObj ms) = ''{'' @ repr_dict pf ms @ ''}''"
| "repr_list pf [] = []"
| "repr_list pf [x] = repr_text pf x"
| "repr_list pf (x # y # xs) = repr_text pf x @ '', '' @ repr_list pf (y # xs)"
| "repr_dict pf [] = []"
| "repr_dict pf [(k, v)] = repr_str pf k @ '': '' @ repr_text pf v"
| "repr_dict pf ((k, v) # m # ms) =
     repr_str pf k @ '': '' @ repr_text pf v @ '', '' @ repr_dict pf (m # ms)"

definition py_repr :: "platform \<Rightarrow> json \<Rightarrow> error + string" where
  "py_repr pf v =
     (case conversion_failure pf (repr_depth pf) v of
        Some e \<Rightarrow> Inl e
      | None \<Rightarrow> Inr (repr_text pf v))"

text \<open>What an f-string puts in place of \<^verbatim>\<open>{v}\<close>: a string as it is, anything else as
  \<^verbatim>\<open>repr\<close> gives it.\<close>

definition py_str :: "platform \<Rightarrow> json \<Rightarrow> error + string" where
  "py_str pf v = (case v of JStr s \<Rightarrow> Inr s | _ \<Rightarrow> py_repr pf v)"

text \<open>\<^verbatim>\<open>str(Path(p) / name)\<close> on a POSIX system, for \<open>p\<close> the text of a path and \<open>name\<close>
  a single component: the two roots \<^verbatim>\<open>/\<close> and \<^verbatim>\<open>//\<close> take no separator, and the
  current directory \<^verbatim>\<open>.\<close> disappears.\<close>

definition joinpath :: "string \<Rightarrow> string \<Rightarrow> string" where
  "joinpath p name =
     (if p = ''/'' \<or> p = ''//'' then p @ name
      else if p = ''.'' then name
      else p @ ''/'' @ name)"

subsection \<open>The child process as \<^verbatim>\<open>asyncio\<close> shows it\<close>

text \<open>
  A process handle: the child's behaviour, the lines handed to \<^verbatim>\<open>stdin.write\<close> so far,
  and whether \<^verbatim>\<open>wait()\<close> has collected the child's exit, after which the transport has
  let go of the process and closed its pipes.
\<close>

record subprocess =
  child :: behaviour
  stdin_log :: "string list"
  exited :: bool

definition create_subprocess_exec :: "platform \<Rightarrow> string \<Rightarrow> string list \<Rightarrow> error + subprocess" where
  "create_subprocess_exec pf prog args =
     (case launch pf prog args of
        Inl e \<Rightarrow> Inl e
      | Inr b \<Rightarrow> Inr \<lparr>child = b, stdin_log = [], exited = False\<rparr>)"

text \<open>
  \<^verbatim>\<open>Process.terminate()\<close> raises \<^verbatim>\<open>ProcessLookupError\<close> once the transport has let go
  of the process; it sends the signal otherwise (to a child that has exited without
  being collected, nothing is sent). \<^verbatim>\<open>Process.wait()\<close> returns when the child has
  exited, so never for a child that ignores the signal.
\<close>

definition terminate :: "subprocess \<Rightarrow> error + subprocess" where
  "terminate p =
     (if exited p \<or> at_close (child p) (stdin_log p) = Collected then Inl ProcessLookupError
      else Inr p)"

definition wait :: "subprocess \<Rightarrow> subprocess outcome" where
  "wait p =
     (if exited p then Returns p
      else case at_close (child p) (stdin_log p) of
             Ignores \<Rightarrow> Blocks
           | _ \<Rightarrow> Returns (p\<lparr>exited := True\<rparr>))"

text \<open>
  \<^verbatim>\<open>StreamReader.readline()\<close> with the limit that \<^verbatim>\<open>create_subprocess_exec\<close> sets, \<open>2\<^sup>1\<^sup>6\<close>
  bytes: of the bytes the child's output holds, the line up to and including the first
  newline, or all of them when the stream ends without one; \<^verbatim>\<open>ValueError\<close> when there
  are more bytes than the limit before the newline or the end.
\<close>

definition stream_limit :: int where
  "stream_limit = 65536"

definition over_limit :: "string \<Rightarrow> bool" where
  "over_limit pending = (stream_limit < int (length (takeWhile (\<lambda>c. c \<noteq> newline) pending)))"

definition first_line :: "string \<Rightarrow> string" where
  "first_line pending = take (Suc (length (takeWhile (\<lambda>c. c \<noteq> newline) pending))) pending"

definition readline :: "string \<Rightarrow> error + string" where
  "readline pending = (if over_limit pending then Inl ValueError else Inr (first_line pending))"

subsection \<open>\<^verbatim>\<open>class McpClient\<close>\<close>

record mcp_client =
  server_path :: string
  process :: "subprocess option"
  message_id :: int

definition McpClient_init :: "string \<Rightarrow> mcp_client" where
  "McpClient_init path = \<lparr>server_path = path, process = None, message_id = 0\<rparr>"

definition start :: "platform \<Rightarrow> mcp_client \<Rightarrow> unit outcome \<times> mcp_client" where
  "start pf c =
     (case create_subprocess_exec pf ''dotnet'' [''run'', ''--project'', server_path c] of
        Inl e \<Rightarrow> (Raises e, c)
      | Inr p \<Rightarrow> (Returns (), c\<lparr>process := Some p\<rparr>))"

text \<open>The request dictionary and its line on the wire. \<^verbatim>\<open>params or {}\<close> is \<^verbatim>\<open>{}\<close> for
  \<^verbatim>\<open>None\<close> and for the empty dictionary.\<close>

definition make_request :: "int \<Rightarrow> string \<Rightarrow> (string \<times> json) list option \<Rightarrow> json" where
  "make_request i method params =
     JObj [(''jsonrpc'', JStr ''2.0''),
           (''id'', JInt i),
           (''method'', JStr method),
           (''params'', JObj (case params of None \<Rightarrow> [] | Some d \<Rightarrow> if d = [] then [] else d))]"

definition request_json ::
  "platform \<Rightarrow> int \<Rightarrow> string \<Rightarrow> (string \<times> json) list option \<Rightarrow> error + string" where
  "request_json pf i method params =
     (case json_dumps pf None (make_request i method params) of
        Inl e \<Rightarrow> Inl e
      | Inr text \<Rightarrow> Inr (text @ [newline]))"

text \<open>The two uses of the response line: decoded for the diagnostic line, then decoded
  again and parsed.\<close>

definition read_response :: "platform \<Rightarrow> string \<Rightarrow> error + json" where
  "read_response pf response_line =
     (case decode response_line of
        Inl e \<Rightarrow> Inl e
      | Inr shown \<Rightarrow>
          (case decode response_line of Inl e \<Rightarrow> Inl e | Inr text \<Rightarrow> json_loads pf text))"

text \<open>Lines 52 to 55: a line is taken from what the child's output holds, and read.\<close>

definition receive :: "platform \<Rightarrow> string \<Rightarrow> error + json" where
  "receive pf pending =
     (case readline pending of
        Inl e \<Rightarrow> Inl e
      | Inr response_line \<Rightarrow> read_response pf response_line)"

text \<open>
  \<^verbatim>\<open>send_request\<close>, statement by statement: the counter, the request and its line (where
  \<^verbatim>\<open>json.dumps\<close> can raise), \<^verbatim>\<open>self.process.stdin\<close> (an \<^verbatim>\<open>AttributeError\<close> on \<^verbatim>\<open>None\<close>),
  \<^verbatim>\<open>write\<close> and \<^verbatim>\<open>drain\<close>, \<^verbatim>\<open>readline\<close>, and the decoding and parsing of the line. After
  \<^verbatim>\<open>wait()\<close> has collected the child, the pipe to its input is closed: \<^verbatim>\<open>write\<close> drops the
  line and \<^verbatim>\<open>drain\<close> raises \<^verbatim>\<open>ConnectionResetError\<close>.
\<close>

definition send_request ::
  "platform \<Rightarrow> string \<Rightarrow> (string \<times> json) list option \<Rightarrow> mcp_client
     \<Rightarrow> json outcome \<times> mcp_client" where
  "send_request pf method params c =
     (let c1 = c\<lparr>message_id := message_id c + 1\<rparr>
      in case request_json pf (message_id c1) method params of
           Inl e \<Rightarrow> (Raises e, c1)
         | Inr line \<Rightarrow>
             (case process c1 of
                None \<Rightarrow> (Raises AttributeError, c1)
              | Some p \<Rightarrow>
                  (let p1 = p\<lparr>stdin_log := stdin_log p @ [line]\<rparr>;
                       c2 = c1\<lparr>process := Some p1\<rparr>
                   in if exited p1 then (Raises ConnectionResetError, c2)
                      else case respond (child p1) (stdin_log p1) of
                             Breaks e \<Rightarrow> (Raises e, c2)
                           | Silent \<Rightarrow> (Blocks, c2)
                           | Reply pending \<Rightarrow>
                               (case receive pf pending of
                                  Inl e \<Rightarrow> (Raises e, c2)
                                | Inr v \<Rightarrow> (Returns v, c2)))))"

definition close :: "mcp_client \<Rightarrow> unit outcome \<times> mcp_client" where
  "close c =
     (case process c of
        None \<Rightarrow> (Returns (), c)
      | Some p \<Rightarrow>
          (case terminate p of
             Inl e \<Rightarrow> (Raises e, c)
           | Inr p1 \<Rightarrow>
               (case wait p1 of
                  Returns p2 \<Rightarrow> (Returns (), c\<lparr>process := Some p2\<rparr>)
                | Raises e \<Rightarrow> (Raises e, c)
                | Blocks \<Rightarrow> (Blocks, c))))"

subsection \<open>The driver \<^verbatim>\<open>generate_review\<close>\<close>

text \<open>The driver's state: its client and what it has written to standard output, one
  entry per \<^verbatim>\<open>print\<close> call, the newline that \<^verbatim>\<open>print\<close> adds included.\<close>

record run =
  client :: mcp_client
  stdout :: "string list"

type_synonym 'a prog = "run \<Rightarrow> 'a outcome \<times> run"

text \<open>Sequencing: what follows a statement runs only if the statement returns.\<close>

definition andthen :: "'a prog \<Rightarrow> ('a \<Rightarrow> 'b prog) \<Rightarrow> 'b prog" where
  "andthen m f s =
     (case m s of
        (Returns x, s1) \<Rightarrow> f x s1
      | (Raises e, s1) \<Rightarrow> (Raises e, s1)
      | (Blocks, s1) \<Rightarrow> (Blocks, s1))"

text \<open>\<^verbatim>\<open>try: body finally: handler\<close>: the handler runs whether the body returns or
  raises, and an exception of the handler replaces the body's.\<close>

definition try_finally :: "'a prog \<Rightarrow> unit prog \<Rightarrow> 'a prog" where
  "try_finally body handler s =
     (case body s of
        (Blocks, s1) \<Rightarrow> (Blocks, s1)
      | (r, s1) \<Rightarrow>
          (case handler s1 of
             (Returns u, s2) \<Rightarrow> (r, s2)
           | (Raises e, s2) \<Rightarrow> (Raises e, s2)
           | (Blocks, s2) \<Rightarrow> (Blocks, s2)))"

definition call :: "(mcp_client \<Rightarrow> 'a outcome \<times> mcp_client) \<Rightarrow> 'a prog" where
  "call f s = (case f (client s) of (r, c) \<Rightarrow> (r, s\<lparr>client := c\<rparr>))"

definition eval :: "error + 'a \<Rightarrow> 'a prog" where
  "eval r s = (case r of Inl e \<Rightarrow> (Raises e, s) | Inr x \<Rightarrow> (Returns x, s))"

definition print :: "platform \<Rightarrow> string \<Rightarrow> unit prog" where
  "print pf text s =
     (case stdout_failure pf (stdout s) (text @ [newline]) of
        Some e \<Rightarrow> (Raises e, s)
      | None \<Rightarrow> (Returns (), s\<lparr>stdout := stdout s @ [text @ [newline]]\<rparr>))"

fun for_each :: "'a list \<Rightarrow> ('a \<Rightarrow> unit prog) \<Rightarrow> unit prog" where
  "for_each [] body = (\<lambda>s. (Returns (), s))"
| "for_each (x # xs) body = andthen (body x) (\<lambda>u. for_each xs body)"

text \<open>The f-string \<^verbatim>\<open>```json\n{json.dumps(v, indent=2)}\n```\n\<close>.\<close>

definition json_block :: "platform \<Rightarrow> json \<Rightarrow> error + string" where
  \<open>json_block pf v =
     (case json_dumps pf (Some 2) v of
        Inl e \<Rightarrow> Inl e
      | Inr text \<Rightarrow> Inr (''```json\<newline>'' @ text @ ''\<newline>```\<newline>''))\<close>

definition print_json :: "platform \<Rightarrow> json \<Rightarrow> unit prog" where
  "print_json pf v = andthen (eval (json_block pf v)) (print pf)"

text \<open>Lines 78 to 90: the handshake.\<close>

definition handshake :: "platform \<Rightarrow> unit prog" where
  \<open>handshake pf =
     andthen (call (send_request pf ''initialize''
                (Some [(''protocolVersion'', JStr ''2024-11-05''),
                       (''capabilities'', JObj []),
                       (''clientInfo'', JObj [(''name'', JStr ''usability-review''),
                                              (''version'', JStr ''1.0'')])])))
       (\<lambda>init_response.
     andthen (print pf ''\<newline># CSharper MCP Server - Usability Review\<newline>'') (\<lambda>u.
     andthen (print pf ''## Server Information\<newline>'') (\<lambda>u.
     print_json pf init_response)))\<close>

text \<open>Lines 98 to 101: the body of the loop over the tools.\<close>

definition render_tool :: "platform \<Rightarrow> json \<Rightarrow> unit prog" where
  \<open>render_tool pf tool =
     andthen (eval (getitem tool ''name'')) (\<lambda>name.
     andthen (eval (py_str pf name)) (\<lambda>shown.
     andthen (print pf (''### Tool: `'' @ shown @ ''`\<newline>'')) (\<lambda>u.
     andthen (eval (getitem tool ''description'')) (\<lambda>description.
     andthen (eval (py_str pf description)) (\<lambda>shown.
     andthen (print pf (''**Description:** '' @ shown @ ''\<newline>'')) (\<lambda>u.
     andthen (print pf ''**Parameters:**\<newline>'') (\<lambda>u.
     andthen (eval (getitem tool ''inputSchema'')) (\<lambda>schema.
     print_json pf schema))))))))\<close>

text \<open>Lines 92 to 101: the listing of the tools.\<close>

definition discovery :: "platform \<Rightarrow> unit prog" where
  \<open>discovery pf =
     andthen (call (send_request pf ''tools/list'' None)) (\<lambda>tools_response.
     andthen (print pf ''## Available Tools\<newline>'') (\<lambda>u.
     andthen (eval (getitem tools_response ''result'')) (\<lambda>result.
     andthen (eval (getitem result ''tools'')) (\<lambda>tools.
     andthen (eval (py_len tools)) (\<lambda>n.
     andthen (print pf (''Found '' @ show_nat n @ '' tools:\<newline>'')) (\<lambda>u.
     andthen (eval (getitem tools_response ''result'')) (\<lambda>result.
     andthen (eval (getitem result ''tools'')) (\<lambda>tools.
     andthen (eval (py_iter tools)) (\<lambda>items.
     for_each items (render_tool pf))))))))))\<close>

text \<open>Lines 103 to 144: the three tool calls.\<close>

definition invocations :: "platform \<Rightarrow> string \<Rightarrow> unit prog" where
  \<open>invocations pf workspace_path =
     andthen (print pf ''## Tool Outputs\<newline>'') (\<lambda>u.
     andthen (print pf ''### 1. `initialize_workspace` - Load workspace\<newline>'') (\<lambda>u.
     andthen (print pf ''**Input:**\<newline>'') (\<lambda>u.
     andthen (print_json pf (JObj [(''path'', JStr workspace_path)])) (\<lambda>u.
     andthen (call (send_request pf ''tools/call''
                (Some [(''name'', JStr ''initialize_workspace''),
                       (''arguments'', JObj [(''path'', JStr workspace_path)])])))
       (\<lambda>workspace_response.
     andthen (print pf ''**Output:**\<newline>'') (\<lambda>u.
     andthen (print_json pf workspace_response) (\<lambda>u.
     andthen (print pf ''### 2. `get_diagnostics` - Get compiler errors/warnings\<newline>'') (\<lambda>u.
     andthen (print pf ''**Input:** (entire workspace, warnings and above)\<newline>'') (\<lambda>u.
     andthen (print_json pf (JObj [])) (\<lambda>u.
     andthen (call (send_request pf ''tools/call''
                (Some [(''name'', JStr ''get_diagnostics''), (''arguments'', JObj [])])))
       (\<lambda>diag_response.
     andthen (print pf ''**Output:**\<newline>'') (\<lambda>u.
     andthen (print_json pf diag_response) (\<lambda>u.
     andthen (print pf ''### 3. `get_symbol_info` - Get symbol information\<newline>'') (\<lambda>u.
     andthen (print pf ''**Input:** (by name - System.String)\<newline>'') (\<lambda>u.
     andthen (print_json pf (JObj [(''symbolName'', JStr ''System.String'')])) (\<lambda>u.
     andthen (call (send_request pf ''tools/call''
                (Some [(''name'', JStr ''get_symbol_info''),
                       (''arguments'', JObj [(''symbolName'', JStr ''System.String'')])])))
       (\<lambda>symbol_response.
     andthen (print pf ''**Output:**\<newline>'') (\<lambda>u.
     andthen (print_json pf symbol_response) (\<lambda>u.
     andthen (print pf ''\<newline>---\<newline>'') (\<lambda>u.
     print pf ''Review complete!''))))))))))))))))))))\<close>

text \<open>
  The whole of \<^verbatim>\<open>generate_review\<close>. \<open>project_root\<close> is the text of
  \<^verbatim>\<open>Path(__file__).parent.parent\<close>, the directory above the script's.
\<close>

definition generate_review :: "platform \<Rightarrow> string \<Rightarrow> unit outcome \<times> run" where
  "generate_review pf project_root =
     (let server_path = joinpath (joinpath project_root ''src'') ''CSharperMcp.Server'';
          workspace_path = project_root
      in try_finally
           (andthen (call (start pf)) (\<lambda>u.
            andthen (handshake pf) (\<lambda>u.
            andthen (discovery pf) (\<lambda>u.
            invocations pf workspace_path))))
           (call close)
           \<lparr>client = McpClient_init server_path, stdout = []\<rparr>)"

subsection \<open>Scenarios\<close>

text \<open>
  Children and platforms for concrete runs. A scripted child answers its \<open>k\<close>-th request
  with the \<open>k\<close>-th entry of a script, closes its output after the last one, and exits
  when it is told to. The platforms have the limits of an interpreter with its default
  settings (the depths are those of a recursion limit of 1000, less the frames in use),
  a standard output that accepts everything, and one program at most, \<^verbatim>\<open>dotnet\<close>. What
  the scenarios do not exercise, the text of a floating-point number and which
  characters outside ASCII are printable, is fixed arbitrarily.
\<close>

definition scripted :: "string list \<Rightarrow> behaviour" where
  "scripted lines =
     \<lparr>respond = (\<lambda>log. if 0 < length log \<and> length log \<le> length lines
                         then Reply (lines ! (length log - 1)) else Reply []),
      at_close = (\<lambda>log. Exits)\<rparr>"

definition interpreter :: "(string \<Rightarrow> string list \<Rightarrow> error + behaviour) \<Rightarrow> platform" where
  "interpreter l =
     \<lparr>launch = l,
      int_max_str_digits = 4300,
      loads_depth = 990,
      dumps_depth = 990,
      pretty_depth = 990,
      repr_depth = 990,
      float_json = (\<lambda>lit. lit),
      float_repr = (\<lambda>lit. lit),
      isprintable = (\<lambda>n. 0xA0 < n),
      stdout_failure = (\<lambda>written text. None)\<rparr>"

definition scripted_platform :: "string list \<Rightarrow> platform" where
  "scripted_platform lines =
     interpreter (\<lambda>prog args. if prog = ''dotnet'' then Inr (scripted lines)
                               else Inl FileNotFoundError)"

definition bare_platform :: platform where
  "bare_platform = interpreter (\<lambda>prog args. Inl FileNotFoundError)"

definition locked_platform :: platform where
  "locked_platform =
     interpreter (\<lambda>prog args. if prog = ''dotnet'' then Inl PermissionError
                               else Inl FileNotFoundError)"

definition fresh_client :: mcp_client where
  "fresh_client = McpClient_init ''/repo/src/CSharperMcp.Server''"

definition started_client :: "string list \<Rightarrow> mcp_client" where
  "started_client lines = snd (start (scripted_platform lines) fresh_client)"

text \<open>The lines a client has handed to its child's input.\<close>

definition sent :: "mcp_client \<Rightarrow> string list" where
  "sent c = (case process c of None \<Rightarrow> [] | Some p \<Rightarrow> stdin_log p)"

text \<open>Successive calls of \<^verbatim>\<open>send_request\<close>, whatever each one returns or raises; nothing
  follows a call that never returns.\<close>

fun send_all ::
  "platform \<Rightarrow> (string \<times> (string \<times> json) list option) list \<Rightarrow> mcp_client \<Rightarrow> mcp_client" where
  "send_all pf [] c = c"
| "send_all pf ((method, params) # calls) c =
     (case send_request pf method params c of
        (Blocks, c') \<Rightarrow> c'
      | (r, c') \<Rightarrow> send_all pf calls c')"

definition mcp_lines :: "string list" where
  \<open>mcp_lines =
     [''{"jsonrpc":"2.0","id":1,"result":{"ok":true}}\<newline>'',
      ''{"jsonrpc":"2.0","id":2,"result":{"tools":[{"name":"get_diagnostics","description":"Get diagnostics","inputSchema":{"type":"object"}}]}}\<newline>'',
      ''{"jsonrpc":"2.0","id":3,"error":{"code":-32000,"message":"no workspace"}}\<newline>'',
      ''{"jsonrpc":"2.0","id":4,"result":{"content":[]}}\<newline>'',
      ''{"jsonrpc":"2.0","id":5,"result":null}\<newline>'']\<close>

text \<open>What the client reads as the child's answer to the last request of a log, when
  the child replies with a line that decodes and parses.\<close>

definition answer :: "platform \<Rightarrow> behaviour \<Rightarrow> string list \<Rightarrow> json option" where
  "answer pf b log =
     (case respond b log of
        Reply pending \<Rightarrow> (case receive pf pending of Inr v \<Rightarrow> Some v | Inl e \<Rightarrow> None)
      | _ \<Rightarrow> None)"


section \<open>Properties\<close>

subsection \<open>Facts about \<^verbatim>\<open>send_request\<close>\<close>

lemma send_request_message_id:
  "message_id (snd (send_request pf method params c)) = message_id c + 1"
  by (simp add: send_request_def Let_def split: option.splits reaction.splits sum.splits)

lemma send_request_sent:
  "process c = Some p \<Longrightarrow> request_json pf (message_id c + 1) method params = Inr line \<Longrightarrow>
   sent (snd (send_request pf method params c)) = stdin_log p @ [line]"
  by (simp add: send_request_def sent_def Let_def split: option.splits reaction.splits sum.splits)

lemma send_request_process:
  "process c = Some p \<Longrightarrow> \<exists>p'. process (snd (send_request pf method params c)) = Some p'"
  by (simp add: send_request_def sent_def Let_def split: option.splits reaction.splits sum.splits)

lemma encoded_keys:
  \<open>encode_basestring_ascii ''jsonrpc'' = ''"jsonrpc"''\<close>
  \<open>encode_basestring_ascii ''2.0'' = ''"2.0"''\<close>
  \<open>encode_basestring_ascii ''id'' = ''"id"''\<close>
  \<open>encode_basestring_ascii ''method'' = ''"method"''\<close>
  \<open>encode_basestring_ascii ''params'' = ''"params"''\<close>
  by code_simp+

lemma started_client_eq:
  "started_client lines =
     \<lparr>server_path = ''/repo/src/CSharperMcp.Server'',
      process = Some \<lparr>child = scripted lines, stdin_log = [], exited = False\<rparr>,
      message_id = 0\<rparr>"
  by (simp add: started_client_def start_def fresh_client_def McpClient_init_def
        create_subprocess_exec_def scripted_platform_def interpreter_def)

lemma readline_empty: "readline [] = Inr []"
  by (simp add: readline_def over_limit_def first_line_def stream_limit_def)

lemma receive_empty: "receive pf [] = Inl JSONDecodeError"
  by (simp add: receive_def readline_empty read_response_def decode_def json_loads_def)









lemma send_all_sent:
  assumes "process c = Some p"
    and "\<forall>k<length calls. \<exists>line.
           request_json pf (message_id c + int k + 1) (fst (calls ! k)) (snd (calls ! k)) = Inr line"
  shows "\<exists>n\<le>length calls. (calls \<noteq> [] \<longrightarrow> 0 < n) \<and>
     map Inr (sent (send_all pf calls c)) =
       map Inr (stdin_log p) @ map (\<lambda>k. request_json pf (message_id c + int k + 1)
                                 (fst (calls ! k)) (snd (calls ! k))) [0..<n]"
  using assms
proof (induction calls arbitrary: c p)
  case Nil
  then show ?case by (simp add: sent_def)
next
  case (Cons call calls)
  obtain meth ps where call: "call = (meth, ps)"
    by (cases call)
  obtain line where line: "request_json pf (message_id c + 1) meth ps = Inr line"
    using Cons.prems(2) [rule_format, of 0] by (auto simp: call)
  obtain r c' where step: "send_request pf meth ps c = (r, c')"
    by (cases "send_request pf meth ps c")
  obtain p' where p': "process c' = Some p'"
    using send_request_process [OF Cons.prems(1), of pf meth ps] step by auto
  have log: "stdin_log p' = stdin_log p @ [line]"
    using send_request_sent [OF Cons.prems(1) line] step p' by (simp add: sent_def)
  have mid: "message_id c' = message_id c + 1"
    using send_request_message_id [of pf meth ps c] step by simp
  show ?case
  proof (cases "r = Blocks")
    case True
    then have "sent (send_all pf (call # calls) c) = stdin_log p'"
      by (simp add: call step sent_def p')
    then have "map Inr (sent (send_all pf (call # calls) c)) =
       map Inr (stdin_log p) @ map (\<lambda>k. request_json pf (message_id c + int k + 1)
          (fst ((call # calls) ! k)) (snd ((call # calls) ! k))) [0..<Suc 0]"
      by (simp add: log call line)
    then show ?thesis
      by (intro exI [of _ "Suc 0"]) simp
  next
    case False
    then have run: "send_all pf (call # calls) c = send_all pf calls c'"
      by (cases r) (simp_all add: call step)
    have rest: "\<forall>k<length calls. \<exists>line.
           request_json pf (message_id c' + int k + 1) (fst (calls ! k)) (snd (calls ! k)) = Inr line"
    proof (intro allI impI)
      fix k assume "k < length calls"
      then show "\<exists>line. request_json pf (message_id c' + int k + 1)
                    (fst (calls ! k)) (snd (calls ! k)) = Inr line"
        using Cons.prems(2) [rule_format, of "Suc k"] by (simp add: mid add.commute add.left_commute)
    qed
    obtain n where n: "n \<le> length calls"
      and eq: "map Inr (sent (send_all pf calls c')) =
         map Inr (stdin_log p') @ map (\<lambda>k. request_json pf (message_id c' + int k + 1)
            (fst (calls ! k)) (snd (calls ! k))) [0..<n]"
      using Cons.IH [OF p' rest] by blast
    have "map Inr (sent (send_all pf (call # calls) c)) =
       map Inr (stdin_log p) @ map (\<lambda>k. request_json pf (message_id c + int k + 1)
          (fst ((call # calls) ! k)) (snd ((call # calls) ! k))) [0..<Suc n]"
      unfolding run eq log mid map_upt_Suc
      using line by (simp add: call add.commute add.left_commute)
    then show ?thesis
      using n by (intro exI [of _ "Suc n"]) simp
  qed
qed

lemma send_request_answer:
  assumes "process c = Some p" and "\<not> exited p"
    and "request_json pf (message_id c + 1) meth ps = Inr line"
    and "answer pf (child p) (stdin_log p @ [line]) = Some v"
  shows "send_request pf meth ps c =
           (Returns v,
            c\<lparr>message_id := message_id c + 1,
              process := Some (p\<lparr>stdin_log := stdin_log p @ [line]\<rparr>)\<rparr>)"
  using assms
  by (simp add: send_request_def answer_def Let_def split: reaction.splits sum.splits)

lemma scripted_answer:
  "length log = Suc k \<Longrightarrow> k < length lines \<Longrightarrow> receive pf (lines ! k) = Inr v \<Longrightarrow>
   answer pf (scripted lines) log = Some v"
  by (auto simp: answer_def scripted_def)

lemma mcp_responses:
  \<open>receive (interpreter l) (mcp_lines ! 0) =
     Inr (JObj [(''jsonrpc'', JStr ''2.0''), (''id'', JInt 1),
                (''result'', JObj [(''ok'', JBool True)])])\<close>
  \<open>receive (interpreter l) (mcp_lines ! 1) =
     Inr (JObj [(''jsonrpc'', JStr ''2.0''), (''id'', JInt 2),
                (''result'', JObj [(''tools'',
                   JArr [JObj [(''name'', JStr ''get_diagnostics''),
                               (''description'', JStr ''Get diagnostics''),
                               (''inputSchema'', JObj [(''type'', JStr ''object'')])]])])])\<close>
  \<open>receive (interpreter l) (mcp_lines ! 2) =
     Inr (JObj [(''jsonrpc'', JStr ''2.0''), (''id'', JInt 3),
                (''error'', JObj [(''code'', JInt (- 32000)),
                                  (''message'', JStr ''no workspace'')])])\<close>
  \<open>receive (interpreter l) (mcp_lines ! 3) =
     Inr (JObj [(''jsonrpc'', JStr ''2.0''), (''id'', JInt 4),
                (''result'', JObj [(''content'', JArr [])])])\<close>
  \<open>receive (interpreter l) (mcp_lines ! 4) =
     Inr (JObj [(''jsonrpc'', JStr ''2.0''), (''id'', JInt 5), (''result'', JNull)])\<close>
  by code_simp+

lemma plain_requests:
  \<open>request_json (interpreter l) 1 ''initialize'' None
     = Inr ''{"jsonrpc": "2.0", "id": 1, "method": "initialize", "params": {}}\<newline>''\<close>
  \<open>request_json (interpreter l) 1 ''tools/list'' None
     = Inr ''{"jsonrpc": "2.0", "id": 1, "method": "tools/list", "params": {}}\<newline>''\<close>
  \<open>request_json (interpreter l) 2 ''tools/list'' None
     = Inr ''{"jsonrpc": "2.0", "id": 2, "method": "tools/list", "params": {}}\<newline>''\<close>
  \<open>request_json (interpreter l) 3 ''ping'' (Some [])
     = Inr ''{"jsonrpc": "2.0", "id": 3, "method": "ping", "params": {}}\<newline>''\<close>
  by code_simp+

subsection \<open>Request identifiers\<close>

text \<open>
  Claim C1. In a session, that is from a client that \<^verbatim>\<open>start\<close> has just started, the
  requests written by successive calls of \<^verbatim>\<open>send_request\<close> carry the ids 1, 2, 3 and
  so on: when the request of every call can be serialised, the line at position \<open>k\<close>
  (from 0) of what the child has been sent is the line of the request dictionary with
  id \<open>k + 1\<close> for the \<open>k\<close>-th call. Every call that is made writes its line, and at most
  one line is written per call (a call on a silent child never returns, so none follows
  it).
\<close>

theorem request_ids_sequential:
  assumes "start pf (McpClient_init path) = (Returns (), c)"
    and "\<forall>k<length calls. \<exists>line.
           request_json pf (int k + 1) (fst (calls ! k)) (snd (calls ! k)) = Inr line"
  shows "length (sent (send_all pf calls c)) \<le> length calls
         \<and> (calls \<noteq> [] \<longrightarrow> sent (send_all pf calls c) \<noteq> [])
         \<and> (\<forall>k<length (sent (send_all pf calls c)).
              request_json pf (int k + 1) (fst (calls ! k)) (snd (calls ! k))
                = Inr (sent (send_all pf calls c) ! k)
              \<and> getitem (make_request (int k + 1) (fst (calls ! k)) (snd (calls ! k))) ''id''
                  = Inr (JInt (int k + 1)))"
proof -
  obtain p where p: "process c = Some p" and log: "stdin_log p = []" and mid: "message_id c = 0"
    using assms(1)
    by (auto simp: start_def McpClient_init_def create_subprocess_exec_def split: sum.splits)
  obtain n where n: "n \<le> length calls" and pos: "calls \<noteq> [] \<longrightarrow> 0 < n"
    and eq: "map Inr (sent (send_all pf calls c)) =
       map (\<lambda>k. request_json pf (int k + 1) (fst (calls ! k)) (snd (calls ! k))) [0..<n]"
    using send_all_sent [OF p, of calls pf] assms(2) by (auto simp: log mid)
  have len: "length (sent (send_all pf calls c)) = n"
    using arg_cong [OF eq, of length] by simp
  have nth: "request_json pf (int k + 1) (fst (calls ! k)) (snd (calls ! k))
               = Inr (sent (send_all pf calls c) ! k)" if "k < n" for k
    using arg_cong [OF eq, of "\<lambda>xs. xs ! k"] that len by simp
  show ?thesis
    using n pos len nth by (auto simp: getitem_def make_request_def)
qed

text \<open>
  The same on a scripted child, for three calls.
\<close>

theorem request_ids_sequential_witness:
  \<open>start (scripted_platform mcp_lines) (McpClient_init ''/repo/src/CSharperMcp.Server'')
     = (Returns (), started_client mcp_lines)
   \<and> sent (send_all (scripted_platform mcp_lines)
             [(''initialize'', None), (''tools/list'', None), (''ping'', Some [])]
             (started_client mcp_lines))
     = [''{"jsonrpc": "2.0", "id": 1, "method": "initialize", "params": {}}\<newline>'',
        ''{"jsonrpc": "2.0", "id": 2, "method": "tools/list", "params": {}}\<newline>'',
        ''{"jsonrpc": "2.0", "id": 3, "method": "ping", "params": {}}\<newline>'']\<close>
proof -
  define pf where "pf = scripted_platform mcp_lines"
  define calls :: "(string \<times> (string \<times> json) list option) list"
    where "calls = [(''initialize'', None), (''tools/list'', None), (''ping'', Some [])]"
  define c where "c = started_client mcp_lines"
  define log where "log = sent (send_all pf calls c)"
  let ?l1 = \<open>''{"jsonrpc": "2.0", "id": 1, "method": "initialize", "params": {}}\<newline>''\<close>
  let ?l2 = \<open>''{"jsonrpc": "2.0", "id": 2, "method": "tools/list", "params": {}}\<newline>''\<close>
  let ?l3 = \<open>''{"jsonrpc": "2.0", "id": 3, "method": "ping", "params": {}}\<newline>''\<close>
  have s: "start pf (McpClient_init ''/repo/src/CSharperMcp.Server'') = (Returns (), c)"
    by (simp add: c_def pf_def started_client_def fresh_client_def start_def
          create_subprocess_exec_def scripted_platform_def interpreter_def)
  have r1: "request_json pf 1 ''initialize'' None = Inr ?l1"
    and r2: "request_json pf 2 ''tools/list'' None = Inr ?l2"
    and r3: "request_json pf 3 ''ping'' (Some []) = Inr ?l3"
    unfolding pf_def scripted_platform_def by (rule plain_requests)+
  have a1: "receive pf (mcp_lines ! 0) = Inr (JObj [(''jsonrpc'', JStr ''2.0''), (''id'', JInt 1),
                (''result'', JObj [(''ok'', JBool True)])])"
    unfolding pf_def scripted_platform_def by (rule mcp_responses)
  have ser: "\<forall>k<length calls. \<exists>line.
           request_json pf (int k + 1) (fst (calls ! k)) (snd (calls ! k)) = Inr line"
  proof (intro allI impI)
    fix k assume "k < length calls"
    then have "k = 0 \<or> k = 1 \<or> k = 2"
      by (auto simp: calls_def)
    then show "\<exists>line. request_json pf (int k + 1) (fst (calls ! k)) (snd (calls ! k)) = Inr line"
      using r1 r2 r3 by (auto simp: calls_def)
  qed
  have five: "length mcp_lines = 5"
    by (simp add: mcp_lines_def)
  have c0: "c = \<lparr>server_path = ''/repo/src/CSharperMcp.Server'',
      process = Some \<lparr>child = scripted mcp_lines, stdin_log = [], exited = False\<rparr>,
      message_id = 0\<rparr>"
    by (simp add: c_def started_client_eq)
  obtain v1 c1 where s1: "send_request pf ''initialize'' None c = (Returns v1, c1)"
    and c1: "c1 = \<lparr>server_path = ''/repo/src/CSharperMcp.Server'',
      process = Some \<lparr>child = scripted mcp_lines, stdin_log = [?l1], exited = False\<rparr>,
      message_id = 1\<rparr>"
    using send_request_answer [of c "\<lparr>child = scripted mcp_lines, stdin_log = [], exited = False\<rparr>"
        pf "''initialize''" None ?l1]
      scripted_answer [of "[?l1]" 0 mcp_lines pf] a1 r1
    by (simp add: c0 five)
  obtain v2 c2 where s2: "send_request pf ''tools/list'' None c1 = (Returns v2, c2)"
    and c2: "c2 = \<lparr>server_path = ''/repo/src/CSharperMcp.Server'',
      process = Some \<lparr>child = scripted mcp_lines, stdin_log = [?l1, ?l2], exited = False\<rparr>,
      message_id = 2\<rparr>"
    using send_request_answer [of c1 "\<lparr>child = scripted mcp_lines, stdin_log = [?l1],
          exited = False\<rparr>" pf "''tools/list''" None ?l2]
      scripted_answer [of "[?l1, ?l2]" 1 mcp_lines pf]
      mcp_responses(2) [of "launch pf"] r2
    by (simp add: c1 five pf_def scripted_platform_def interpreter_def)
  obtain v3 c3 where s3: "send_request pf ''ping'' (Some []) c2 = (Returns v3, c3)"
    and c3: "sent c3 = [?l1, ?l2, ?l3]"
    using send_request_answer [of c2 "\<lparr>child = scripted mcp_lines, stdin_log = [?l1, ?l2],
          exited = False\<rparr>" pf "''ping''" "Some []" ?l3]
      scripted_answer [of "[?l1, ?l2, ?l3]" 2 mcp_lines pf]
      mcp_responses(3) [of "launch pf"] r3
    by (simp add: c2 five sent_def pf_def scripted_platform_def interpreter_def)
  have len: "length log = 3"
    by (simp add: log_def calls_def s1 s2 s3 c3)
  have every: "\<forall>k<length log.
      request_json pf (int k + 1) (fst (calls ! k)) (snd (calls ! k)) = Inr (log ! k)
      \<and> getitem (make_request (int k + 1) (fst (calls ! k)) (snd (calls ! k))) ''id''
          = Inr (JInt (int k + 1))"
    unfolding log_def
    by (rule conjunct2 [OF conjunct2 [OF request_ids_sequential [OF s ser]]])
  have n0: "log ! 0 = ?l1"
    using every [rule_format, of 0] len r1 by (simp add: calls_def)
  have n1: "log ! 1 = ?l2"
    using every [rule_format, of 1] len r2 by (simp add: calls_def)
  have n2: "log ! 2 = ?l3"
    using every [rule_format, of 2] len r3 by (simp add: calls_def)
  obtain x0 x1 x2 where xs: "log = [x0, x1, x2]"
    using len by (auto simp: numeral_3_eq_3 length_Suc_conv)
  have "log = [?l1, ?l2, ?l3]"
    using n0 n1 n2 by (simp add: xs)
  then show ?thesis
    using s unfolding log_def calls_def c_def pf_def by blast
qed

text \<open>
  Claim C10. \<^verbatim>\<open>send_request\<close> advances the counter by one whatever the call's outcome
  (returned, raised, blocked); the next call therefore uses the next id, and the line
  handed to the child's input, when the request can be serialised, carries the id
  already advanced.
\<close>

theorem send_request_consumes_id:
  "message_id (snd (send_request pf method params c)) = message_id c + 1
   \<and> message_id (snd (send_request pf method' params' (snd (send_request pf method params c))))
       = message_id c + 2
   \<and> (process c = Some p \<and> request_json pf (message_id c + 1) method params = Inr line \<longrightarrow>
        sent (snd (send_request pf method params c)) = stdin_log p @ [line])"
  by (simp add: send_request_message_id send_request_sent)

text \<open>
  A call that fails, on a child that has closed its output, and the call after it.
\<close>

theorem send_request_consumes_id_witness:
  \<open>fst (send_request (scripted_platform []) ''initialize'' None (started_client []))
     = Raises JSONDecodeError
   \<and> message_id (snd (send_request (scripted_platform []) ''initialize'' None
        (started_client []))) = 1
   \<and> message_id (snd (send_request (scripted_platform []) ''tools/list'' None
        (snd (send_request (scripted_platform []) ''initialize'' None (started_client []))))) = 2
   \<and> sent (snd (send_request (scripted_platform []) ''initialize'' None (started_client [])))
        = [''{"jsonrpc": "2.0", "id": 1, "method": "initialize", "params": {}}\<newline>'']\<close>
proof -
  let ?pf = "scripted_platform []"
  let ?l1 = \<open>''{"jsonrpc": "2.0", "id": 1, "method": "initialize", "params": {}}\<newline>''\<close>
  have p: "process (started_client []) = Some \<lparr>child = scripted [], stdin_log = [], exited = False\<rparr>"
    and m: "message_id (started_client []) = 0"
    by (simp_all add: started_client_eq)
  have r: "request_json ?pf 1 ''initialize'' None = Inr ?l1"
    unfolding scripted_platform_def by (rule plain_requests)
  have f: "fst (send_request ?pf ''initialize'' None (started_client [])) = Raises JSONDecodeError"
    by (simp add: send_request_def started_client_eq scripted_def receive_empty r)
  show ?thesis
    using send_request_consumes_id [of ?pf "''initialize''" None "started_client []"
        "''tools/list''" None "\<lparr>child = scripted [], stdin_log = [], exited = False\<rparr>" ?l1] p m f r
    by simp
qed

subsection \<open>The \<^verbatim>\<open>params\<close> argument\<close>

text \<open>
  Claim C9. For every method, on a client with a process, \<^verbatim>\<open>send_request\<close> called
  without \<^verbatim>\<open>params\<close> (the default \<^verbatim>\<open>None\<close>) and called with the empty dictionary
  behave identically: both hand the same line to the child's input, and the line
  carries \<^verbatim>\<open>"params": {}\<close>.
\<close>

theorem send_request_params_default:
  assumes "process c = Some p"
    and "request_json pf (message_id c + 1) method None = Inr line"
  shows \<open>send_request pf method None c = send_request pf method (Some []) c
   \<and> sent (snd (send_request pf method None c)) = stdin_log p @ [line]
   \<and> sent (snd (send_request pf method (Some []) c)) = stdin_log p @ [line]
   \<and> line = ''{"jsonrpc": "2.0", "id": '' @ show_int (message_id c + 1) @ '', "method": ''
         @ encode_basestring_ascii method @ '', "params": {}}\<newline>''\<close>
proof -
  have same: "request_json pf i method (Some []) = request_json pf i method None" for i
    by (simp add: request_json_def make_request_def)
  have eq: "send_request pf method None c = send_request pf method (Some []) c"
    by (simp add: send_request_def same)
  have s1: "sent (snd (send_request pf method None c)) = stdin_log p @ [line]"
    using send_request_sent [OF assms] .
  have shape: \<open>line = ''{"jsonrpc": "2.0", "id": '' @ show_int (message_id c + 1) @ '', "method": ''
         @ encode_basestring_ascii method @ '', "params": {}}\<newline>''\<close>
    using assms(2)
    by (auto simp: request_json_def make_request_def json_dumps_def
          newline_indent_def item_separator_def encoded_keys newline_def
          split: option.splits sum.splits)
  show ?thesis
    using eq s1 shape by simp
qed

text \<open>
  The two calls on a started client.
\<close>

theorem send_request_params_default_witness:
  \<open>send_request (scripted_platform mcp_lines) ''tools/list'' None (started_client mcp_lines)
     = send_request (scripted_platform mcp_lines) ''tools/list'' (Some []) (started_client mcp_lines)
   \<and> sent (snd (send_request (scripted_platform mcp_lines) ''tools/list'' None
        (started_client mcp_lines)))
       = [''{"jsonrpc": "2.0", "id": 1, "method": "tools/list", "params": {}}\<newline>'']
   \<and> sent (snd (send_request (scripted_platform mcp_lines) ''tools/list'' (Some [])
        (started_client mcp_lines)))
       = [''{"jsonrpc": "2.0", "id": 1, "method": "tools/list", "params": {}}\<newline>'']\<close>
proof -
  let ?pf = "scripted_platform mcp_lines"
  let ?l = \<open>''{"jsonrpc": "2.0", "id": 1, "method": "tools/list", "params": {}}\<newline>''\<close>
  have p: "process (started_client mcp_lines)
             = Some \<lparr>child = scripted mcp_lines, stdin_log = [], exited = False\<rparr>"
    by (simp add: started_client_eq)
  have r: "request_json ?pf (message_id (started_client mcp_lines) + 1) ''tools/list'' None = Inr ?l"
    unfolding scripted_platform_def using plain_requests(2) by (simp add: started_client_eq)
  show ?thesis
    using send_request_params_default [OF p r] by simp
qed

subsection \<open>Launching and closing\<close>

text \<open>
  Claim C5, as stated, at a concrete input: on a system without \<^verbatim>\<open>dotnet\<close>, \<^verbatim>\<open>start\<close>
  raises \<^verbatim>\<open>FileNotFoundError\<close>, which is no \<^verbatim>\<open>ProcessLaunchError\<close>.
\<close>

theorem start_missing_executable:
  "fst (start bare_platform fresh_client) = Raises FileNotFoundError
   \<and> ''ProcessLaunchError'' \<notin> set (exception_mro FileNotFoundError)"
  by (simp add: start_def create_subprocess_exec_def bare_platform_def interpreter_def)

text \<open>
  Claim C5, amended. Whatever exception the launcher raises, because the executable
  cannot be found or started or for any other reason, \<^verbatim>\<open>start\<close> fails with that
  exception unchanged and leaves the client as it was; a client that had no process
  handle still has none.
\<close>

theorem start_launch_failure:
  "launch pf ''dotnet'' [''run'', ''--project'', server_path c] = Inl e \<Longrightarrow>
     start pf c = (Raises e, c)
     \<and> (process c = None \<longrightarrow> process (snd (start pf c)) = None)"
  by (simp add: start_def create_subprocess_exec_def)

text \<open>
  A system without \<^verbatim>\<open>dotnet\<close>, and one where it may not be executed.
\<close>

theorem start_launch_failure_witness:
  "start bare_platform fresh_client = (Raises FileNotFoundError, fresh_client)
   \<and> start locked_platform fresh_client = (Raises PermissionError, fresh_client)
   \<and> process fresh_client = None
   \<and> process (snd (start locked_platform fresh_client)) = None"
  using start_launch_failure [of bare_platform fresh_client FileNotFoundError]
    start_launch_failure [of locked_platform fresh_client PermissionError]
  by (simp add: bare_platform_def locked_platform_def interpreter_def fresh_client_def
        McpClient_init_def)

text \<open>
  Claim C3, as stated, at a concrete input: on a started client the first \<^verbatim>\<open>close\<close>
  returns and the second raises \<^verbatim>\<open>ProcessLookupError\<close>, since the handle is kept and
  \<^verbatim>\<open>terminate\<close> is called on the collected process again.
\<close>

theorem close_twice_raises:
  "fst (close (started_client [])) = Returns ()
   \<and> fst (close (snd (close (started_client [])))) = Raises ProcessLookupError"
  by (simp add: close_def terminate_def wait_def started_client_eq scripted_def)

text \<open>
  Claim C3, amended. When no process handle exists, because \<^verbatim>\<open>start\<close> was never called
  or failed, \<^verbatim>\<open>close\<close> returns without an exception and changes nothing, however often
  it is called.
\<close>

theorem close_without_process:
  "process c = None \<Longrightarrow>
     close c = (Returns (), c) \<and> close (snd (close c)) = (Returns (), c)
     \<and> (fst (start pf c) = Raises e \<longrightarrow> close (snd (start pf c)) = (Returns (), c))"
  by (auto simp: close_def start_def split: sum.splits)

text \<open>
  A client never started, and one whose \<^verbatim>\<open>start\<close> failed.
\<close>

theorem close_without_process_witness:
  "process fresh_client = None
   \<and> close fresh_client = (Returns (), fresh_client)
   \<and> close (snd (close fresh_client)) = (Returns (), fresh_client)
   \<and> fst (start bare_platform fresh_client) = Raises FileNotFoundError
   \<and> close (snd (start bare_platform fresh_client)) = (Returns (), fresh_client)"
proof -
  have n: "process fresh_client = None"
    by (simp add: fresh_client_def McpClient_init_def)
  have s: "fst (start bare_platform fresh_client) = Raises FileNotFoundError"
    by (simp add: start_def create_subprocess_exec_def bare_platform_def interpreter_def)
  show ?thesis
    using close_without_process [OF n, of bare_platform FileNotFoundError] n s by simp
qed

subsection \<open>Unreadable responses\<close>





end
